theory Spec2Isabelle
  imports Complex_Main
begin

section \<open>Simulated detectors of sst\_common\_sim: the embedding\<close>

text \<open>
  The module \<^verbatim>\<open>sst_common_sim/detectors.py\<close> builds simulated detectors on the signal
  and device classes of the host framework (ophyd). Python numbers are idealised as
  reals. Every raise of the code is a value of \<open>error\<close>; a function that can raise
  returns \<open>error + 'a\<close>. Mutable objects are passed in and returned.
\<close>

subsection \<open>Errors, completion handles and background threads\<close>

datatype error = ZeroDivisionError | ValueError | Raised nat

text \<open>
  \<open>Raised n\<close> stands for whatever exception an input callable of the caller raises.
  A \<^verbatim>\<open>DeviceStatus\<close> is pending until \<^verbatim>\<open>set_finished\<close> is called on it. The handles
  created so far and the threads started so far are kept in \<open>sched\<close>; a handle is named
  by its position in \<open>statuses\<close>.
\<close>

datatype status = Pending | Finished

datatype thread =
    SleepPutFinish real nat
  | SleepAndFinish real nat
  | Acquire nat

record sched =
  statuses :: "status list"
  threads :: "thread list"

definition DeviceStatus :: "sched \<Rightarrow> nat \<times> sched" where
  "DeviceStatus k = (length (statuses k), k\<lparr>statuses := statuses k @ [Pending]\<rparr>)"

definition set_finished :: "nat \<Rightarrow> sched \<Rightarrow> sched" where
  "set_finished st k = k\<lparr>statuses := (statuses k)[st := Finished]\<rparr>"

definition Thread_start :: "thread \<Rightarrow> sched \<Rightarrow> sched" where
  "Thread_start t k = k\<lparr>threads := threads k @ [t]\<rparr>"

subsection \<open>Random generators\<close>

text \<open>
  A random generator is any object with methods \<^verbatim>\<open>normal(loc, scale)\<close> and
  \<^verbatim>\<open>uniform(low, high)\<close>; a draw returns a number and leaves the generator in its next
  state. \<open>canned\<close> is a generator for tests that replays a fixed list of standard draws.
\<close>

codatatype rng =
  Rng (normal: "real \<Rightarrow> real \<Rightarrow> real \<times> rng") (uniform: "real \<Rightarrow> real \<Rightarrow> real \<times> rng")

primcorec canned :: "real list \<Rightarrow> rng" where
  "normal (canned zs) =
     (\<lambda>loc scale. (loc + scale * (case zs of [] \<Rightarrow> 0 | z # _ \<Rightarrow> z), canned (tl zs)))"
| "uniform (canned zs) =
     (\<lambda>low high. (low + (high - low) * (case zs of [] \<Rightarrow> 0 | z # _ \<Rightarrow> z), canned (tl zs)))"

text \<open>
  A device's \<^verbatim>\<open>random_state\<close> is either the module \<^verbatim>\<open>np.random\<close> (the process-wide
  generator, whose state lives in the environment) or a generator object of its own.
\<close>

datatype rng_ref = Process_wide | Own rng

definition rs_normal :: "rng_ref \<Rightarrow> rng \<Rightarrow> real \<Rightarrow> real \<Rightarrow> real \<times> rng_ref \<times> rng" where
  "rs_normal r G loc scale =
     (case r of
        Process_wide \<Rightarrow> (case normal G loc scale of (v, G1) \<Rightarrow> (v, Process_wide, G1))
      | Own g \<Rightarrow> (case normal g loc scale of (v, g1) \<Rightarrow> (v, Own g1, G)))"

definition rs_uniform :: "rng_ref \<Rightarrow> rng \<Rightarrow> real \<Rightarrow> real \<Rightarrow> real \<times> rng_ref \<times> rng" where
  "rs_uniform r G low high =
     (case r of
        Process_wide \<Rightarrow> (case uniform G low high of (v, G1) \<Rightarrow> (v, Process_wide, G1))
      | Own g \<Rightarrow> (case uniform g low high of (v, g1) \<Rightarrow> (v, Own g1, G)))"

text \<open>
  The environment of a computation: \<open>world\<close> is whatever the input callables of the
  caller observe and change, \<open>np_random\<close> the state of the process-wide generator.
\<close>

record 'w env =
  world :: 'w
  np_random :: rng

subsection \<open>The error function\<close>

text \<open>
  \<^verbatim>\<open>scipy.special.erf\<close> is the error function, here by its Maclaurin series
  \<open>2 / sqrt pi * (\<Sum>k. (-1)^k * x^(2k+1) / (k! * (2k+1)))\<close>.
\<close>

definition erf_coeffs :: "nat \<Rightarrow> real" where
  "erf_coeffs n = (if odd n then (- 1) ^ (n div 2) / (fact (n div 2) * real n) else 0)"

definition erf :: "real \<Rightarrow> real" where
  "erf x = 2 / sqrt pi * (\<Sum>n. erf_coeffs n * x ^ n)"

text \<open>
  \<^verbatim>\<open>norm_erf(x, width) = 0.5*(erf(2.0*x/width) + 1)\<close>; the division raises for
  \<^verbatim>\<open>width = 0\<close>.
\<close>

definition norm_erf :: "real \<Rightarrow> real \<Rightarrow> error + real" where
  "norm_erf x width =
     (if width = 0 then Inl ZeroDivisionError else Inr (0.5 * (erf (2.0 * x / width) + 1)))"

subsection \<open>Signals of the host framework\<close>

text \<open>
  The classes \<^verbatim>\<open>Signal\<close> and \<^verbatim>\<open>SynSignal\<close> belong to the library ophyd, not to this
  repository; the module inherits from them, and they are modelled here by what the
  library does. A signal stores one value: \<^verbatim>\<open>put\<close> replaces it, \<^verbatim>\<open>get\<close> and \<^verbatim>\<open>read\<close> return
  it. A \<^verbatim>\<open>SynSignal\<close> (in the library's words, a signal that evaluates a Python function
  when triggered) has a function \<^verbatim>\<open>_func\<close> and an \<^verbatim>\<open>exposure_time\<close> (0 unless given); it
  starts with the value 0. Its \<^verbatim>\<open>trigger\<close> creates a status and, when the exposure time
  is zero, puts \<^verbatim>\<open>_func()\<close> and finishes the status before returning; otherwise a
  thread sleeps, puts \<^verbatim>\<open>_func()\<close> and finishes the status. Its \<^verbatim>\<open>read\<close> is the one of
  \<^verbatim>\<open>Signal\<close>. This is the method pair that \<^verbatim>\<open>SynSignalDelayed\<close> of the module overrides:
  its \<^verbatim>\<open>trigger\<close> is the same code without the two \<^verbatim>\<open>put\<close>s, and its \<^verbatim>\<open>read\<close> does the
  \<^verbatim>\<open>put\<close> before calling the inherited \<^verbatim>\<open>read\<close>. Every constructor of the module
  installs the device's \<^verbatim>\<open>_compute\<close> as \<^verbatim>\<open>_func\<close> (by \<^verbatim>\<open>sim_set_func\<close>) before the device can
  be triggered, so \<open>func\<close> below is always that \<^verbatim>\<open>_compute\<close>. The state \<open>'s\<close> that \<open>func\<close>
  reads and changes is the device together with its environment.
\<close>

record synsignal =
  readback :: real
  exposure_time :: real

definition SynSignal_init :: synsignal where
  "SynSignal_init = \<lparr>readback = 0, exposure_time = 0\<rparr>"




text \<open>The body of the thread that \<^verbatim>\<open>SynSignal.trigger\<close> starts; it returns the time slept.\<close>

definition SynSignal_sleep_and_finish ::
  "('s \<Rightarrow> (error + real) \<times> 's) \<Rightarrow> (real \<Rightarrow> 's \<Rightarrow> 's) \<Rightarrow> real \<Rightarrow> nat \<Rightarrow> 's \<Rightarrow> sched
     \<Rightarrow> (error + real) \<times> 's \<times> sched" where
  "SynSignal_sleep_and_finish func put delay_time st s k =
     (if delay_time < 0 then (Inl ValueError, s, k)
      else (case func s of
              (Inl err, s1) \<Rightarrow> (Inl err, s1, k)
            | (Inr v, s1) \<Rightarrow> (Inr delay_time, put v s1, set_finished st k)))"

subsection \<open>SynSignalDelayed\<close>

text \<open>
  \<^verbatim>\<open>SynSignalDelayed.trigger\<close> never computes: with a nonzero exposure time it starts
  a thread that sleeps and finishes the status, otherwise it finishes the status
  itself. \<^verbatim>\<open>SynSignalDelayed.read\<close> puts \<^verbatim>\<open>_func()\<close> and then reads the stored value.
\<close>

definition SynSignalDelayed_trigger :: "synsignal \<Rightarrow> sched \<Rightarrow> nat \<times> sched" where
  "SynSignalDelayed_trigger sig k =
     (case DeviceStatus k of
        (st, k1) \<Rightarrow>
          (let delay_time = exposure_time sig in
           if delay_time \<noteq> 0 then (st, Thread_start (SleepAndFinish delay_time st) k1)
           else (st, set_finished st k1)))"



subsection \<open>SynErf\<close>

datatype noise_kind = NoiseNone | NoiseUniform | NoiseNormal

text \<open>
  The configuration signals of \<^verbatim>\<open>SynErf\<close> are fields; \<open>distance_fn\<close> is \<^verbatim>\<open>_distance\<close>,
  the zero-argument callable given to the constructor, which may read and change
  the world and may raise.
\<close>

record 'w SynErf =
  val :: synsignal
  Imax :: real
  center :: real
  width :: real
  noise :: noise_kind
  noise_multiplier :: real
  noise_sigma :: real
  distance_fn :: "'w \<Rightarrow> (error + real) \<times> 'w"
  sign :: real
  random_state :: rng_ref

definition SynErf_compute :: "'w SynErf \<times> 'w env \<Rightarrow> (error + real) \<times> 'w SynErf \<times> 'w env" where
  "SynErf_compute s =
     (case s of
        (d, e) \<Rightarrow>
          (case distance_fn d (world e) of
             (Inl err, w1) \<Rightarrow> (Inl err, d, e\<lparr>world := w1\<rparr>)
           | (Inr x, w1) \<Rightarrow>
               (let e1 = e\<lparr>world := w1\<rparr>;
                    dist = x * sign d;
                    width = SynErf.width d;
                    center = SynErf.center d;
                    Imax = Imax d;
                    noise = noise d
                in case norm_erf dist width of
                     Inl err \<Rightarrow> (Inl err, d, e1)
                   | Inr ne \<Rightarrow>
                       (let v = Imax * ne
                        in if noise = NoiseNormal then
                             (let noise_sigma = noise_sigma d
                              in case rs_normal (random_state d) (np_random e1) v noise_sigma of
                                   (v1, r1, G1) \<Rightarrow>
                                     (Inr v1, d\<lparr>random_state := r1\<rparr>, e1\<lparr>np_random := G1\<rparr>))
                           else if noise = NoiseUniform then
                             (let noise_multiplier = noise_multiplier d
                              in case rs_uniform (random_state d) (np_random e1) (- 1) 1 of
                                   (u, r1, G1) \<Rightarrow>
                                     (Inr (v + u * noise_multiplier),
                                      d\<lparr>random_state := r1\<rparr>, e1\<lparr>np_random := G1\<rparr>))
                           else (Inr v, d, e1)))))"

text \<open>
  The constructor stores its arguments and installs \<^verbatim>\<open>_compute\<close>; it does not trigger
  (the call is commented out in the code). A constructor is run in an environment and
  with the handles and threads so far, and returns them.
\<close>

definition SynErf_init ::
  "('w \<Rightarrow> (error + real) \<times> 'w) \<Rightarrow> real \<Rightarrow> noise_kind \<Rightarrow> real \<Rightarrow> real \<Rightarrow> rng option \<Rightarrow> bool
     \<Rightarrow> 'w env \<Rightarrow> sched \<Rightarrow> (error + 'w SynErf) \<times> 'w env \<times> sched" where
  "SynErf_init distance_function width' noise' noise_sigma' noise_multiplier' random_state'
       transmission e k =
     (Inr \<lparr>val = SynSignal_init,
           Imax = 1,
           center = 0,
           width = width',
           noise = noise',
           noise_multiplier = noise_multiplier',
           noise_sigma = noise_sigma',
           distance_fn = distance_function,
           sign = (if transmission then 1 else - 1),
           random_state = (case random_state' of None \<Rightarrow> Process_wide | Some g \<Rightarrow> Own g)\<rparr>,
      e, k)"




subsection \<open>SynLinear\<close>

record 'w SynLinear =
  val :: synsignal
  offset :: real
  slope :: real
  x_fn :: "'w \<Rightarrow> (error + real) \<times> 'w"






subsection \<open>SynNormal\<close>

text \<open>\<^verbatim>\<open>SynNormal._compute\<close> draws from \<^verbatim>\<open>np.random\<close> itself; the class has no generator.\<close>

record SynNormal =
  val :: synsignal
  center :: real
  width :: real






subsection \<open>SynCompound, SynMult and DerivedSynDevice\<close>

text \<open>
  These devices hold references to other devices and read the \<^verbatim>\<open>val\<close> signals of those
  at computation time. The state of a computation is the device together with the
  current \<^verbatim>\<open>val\<close> signals of the devices it refers to. Their own \<^verbatim>\<open>val\<close> is a
  \<^verbatim>\<open>SynSignalDelayed\<close>.
\<close>

record SynCompound =
  val :: synsignal
  func :: "real list \<Rightarrow> error + real"


definition SynCompound_init :: "(real list \<Rightarrow> error + real) \<Rightarrow> SynCompound" where
  "SynCompound_init f = \<lparr>val = SynSignal_init, func = f\<rparr>"

definition SynMult_init :: SynCompound where
  "SynMult_init = SynCompound_init (\<lambda>args. Inr (prod_list args))"


definition SynCompound_trigger :: "SynCompound \<Rightarrow> sched \<Rightarrow> nat \<times> sched" where
  "SynCompound_trigger d k = SynSignalDelayed_trigger (SynCompound.val d) k"


record DerivedSynDevice =
  val :: synsignal




definition DerivedSynDevice_trigger :: "DerivedSynDevice \<Rightarrow> sched \<Rightarrow> nat \<times> sched" where
  "DerivedSynDevice_trigger d k = SynSignalDelayed_trigger (DerivedSynDevice.val d) k"


subsection \<open>Python values, formatting and \<^verbatim>\<open>float()\<close>\<close>














subsection \<open>SimI400Base\<close>






section \<open>Facts about the error function\<close>

lemma diffs_erf_coeffs:
  "diffs erf_coeffs n = (if even n then (- 1) ^ (n div 2) / fact (n div 2) else 0)"
  by (simp add: diffs_def erf_coeffs_def)

lemma erf_deriv_series: "(\<lambda>n. diffs erf_coeffs n * x ^ n) sums exp (- (x\<^sup>2))"
proof -
  have e: "(\<lambda>k. (- (x\<^sup>2)) ^ k /\<^sub>R fact k) sums exp (- (x\<^sup>2))"
    by (rule exp_converges)
  have z: "(\<lambda>k::nat. 0::real) sums 0" by (rule sums_zero)
  have "(\<lambda>n. if even n then (- (x\<^sup>2)) ^ (n div 2) /\<^sub>R fact (n div 2) else 0)
          sums (0 + exp (- (x\<^sup>2)))"
    using sums_if [OF z e] by simp
  moreover have "(\<lambda>n. if even n then (- (x\<^sup>2)) ^ (n div 2) /\<^sub>R fact (n div 2) else 0)
      = (\<lambda>n. diffs erf_coeffs n * x ^ n)"
  proof
    fix n :: nat
    show "(if even n then (- (x\<^sup>2)) ^ (n div 2) /\<^sub>R fact (n div 2) else 0)
            = diffs erf_coeffs n * x ^ n"
    proof (cases "even n")
      case True
      then obtain k where n: "n = 2 * k" by (auto elim: evenE)
      have "(- (x\<^sup>2)) ^ k = (- 1) ^ k * x ^ (2 * k)"
        by (simp add: power_mult power_minus [of "x\<^sup>2"])
      then show ?thesis
        by (simp add: diffs_erf_coeffs n divide_inverse mult_ac)
    next
      case False
      then show ?thesis by (simp add: diffs_erf_coeffs)
    qed
  qed
  ultimately show ?thesis by simp
qed

lemma erf_series_summable: "summable (\<lambda>n. erf_coeffs n * x ^ n)"
proof -
  let ?g = "\<lambda>k. (- 1) ^ k * x ^ (2 * k + 1) / (fact k * real (2 * k + 1))"
  have "summable (\<lambda>k. norm ((x\<^sup>2) ^ k /\<^sub>R fact k))"
    by (rule summable_norm_exp)
  then have s: "summable (\<lambda>k. \<bar>x\<bar> * norm ((x\<^sup>2) ^ k /\<^sub>R fact k))"
    by (rule summable_mult)
  have "summable ?g"
  proof (rule summable_comparison_test' [OF s, of 0])
    fix k :: nat
    have "norm (?g k) = \<bar>x\<bar> * (x\<^sup>2) ^ k / (fact k * real (2 * k + 1))"
      by (simp add: abs_mult power_abs power_mult power_even_abs)
    also have "\<dots> \<le> \<bar>x\<bar> * (x\<^sup>2) ^ k / (fact k * 1)"
      by (intro divide_left_mono mult_left_mono mult_nonneg_nonneg) simp_all
    also have "\<dots> = \<bar>x\<bar> * norm ((x\<^sup>2) ^ k /\<^sub>R fact k)"
      by (simp add: divide_inverse)
    finally show "norm (?g k) \<le> \<bar>x\<bar> * norm ((x\<^sup>2) ^ k /\<^sub>R fact k)" .
  qed
  then have "?g sums suminf ?g" by (rule summable_sums)
  then have "(\<lambda>n. if even n then 0 else ?g ((n - 1) div 2)) sums suminf ?g"
    by (rule sums_if')
  moreover have "(\<lambda>n. if even n then 0 else ?g ((n - 1) div 2)) = (\<lambda>n. erf_coeffs n * x ^ n)"
  proof
    fix n :: nat
    show "(if even n then 0 else ?g ((n - 1) div 2)) = erf_coeffs n * x ^ n"
    proof (cases "even n")
      case True
      then show ?thesis by (simp add: erf_coeffs_def)
    next
      case False
      then obtain k where n: "n = 2 * k + 1" by (auto elim: oddE)
      show ?thesis by (simp add: erf_coeffs_def n)
    qed
  qed
  ultimately show ?thesis by (simp add: sums_iff)
qed

lemma DERIV_erf: "(erf has_field_derivative 2 / sqrt pi * exp (- (x\<^sup>2))) (at x)"
proof -
  have "((\<lambda>x. \<Sum>n. erf_coeffs n * x ^ n) has_field_derivative
          (\<Sum>n. diffs erf_coeffs n * x ^ n)) (at x)"
    by (rule termdiffs_strong_converges_everywhere) (rule erf_series_summable)
  moreover have "(\<Sum>n. diffs erf_coeffs n * x ^ n) = exp (- (x\<^sup>2))"
    using erf_deriv_series [of x] by (simp add: sums_iff)
  ultimately have "((\<lambda>x. \<Sum>n. erf_coeffs n * x ^ n) has_field_derivative exp (- (x\<^sup>2))) (at x)"
    by simp
  then have "((\<lambda>x. 2 / sqrt pi * (\<Sum>n. erf_coeffs n * x ^ n)) has_field_derivative
               2 / sqrt pi * exp (- (x\<^sup>2))) (at x)"
    by (rule DERIV_cmult)
  then show ?thesis by (simp add: erf_def [abs_def])
qed

lemma erf_strict_mono:
  assumes "a < b"
  shows "erf a < erf b"
proof (rule DERIV_pos_imp_increasing [OF assms])
  fix x :: real
  have "0 < 2 / sqrt pi * exp (- (x\<^sup>2))" by simp
  then show "\<exists>y. (erf has_real_derivative y) (at x) \<and> 0 < y"
    using DERIV_erf by blast
qed

lemma erf_mono: "a \<le> b \<Longrightarrow> erf a \<le> erf b"
  using erf_strict_mono [of a b] by (cases "a = b") auto

lemma erf_0: "erf 0 = 0"
proof -
  have "(\<lambda>n. erf_coeffs n * 0 ^ n) = (\<lambda>n. 0)"
    by (rule ext) (simp add: erf_coeffs_def power_0_left)
  then show ?thesis by (simp add: erf_def)
qed

section \<open>Facts about handles and the immediate trigger\<close>


section \<open>Delayed completion\<close>



section \<open>The linear device\<close>



section \<open>The erf-profile device\<close>

text \<open>
  C9. \<^verbatim>\<open>SynErf._compute\<close> reads \<^verbatim>\<open>center\<close> and never uses it: two devices that differ
  only in \<^verbatim>\<open>center\<close> compute the same result, leave the environment and the
  generators in the same state, and still differ only in \<^verbatim>\<open>center\<close>.
\<close>

theorem SynErf_center_unused:
  "SynErf_compute (d\<lparr>SynErf.center := c\<rparr>, e) =
     (case SynErf_compute (d, e) of (r, d1, e1) \<Rightarrow> (r, d1\<lparr>SynErf.center := c\<rparr>, e1))"
  by (simp add: SynErf_compute_def Let_def split: prod.splits sum.splits)

section \<open>Constructors\<close>


section \<open>Reading: when the value is computed\<close>





section \<open>Monotonicity of the erf profile\<close>

lemma SynErf_compute_noiseless:
  assumes "SynErf.width d \<noteq> 0" and "noise d = NoiseNone"
  shows "fst (SynErf_compute (d\<lparr>distance_fn := \<lambda>w. (Inr x, w)\<rparr>, e)) =
           Inr (Imax d * (1 / 2 * (erf (2 * (x * sign d) / SynErf.width d) + 1)))"
  using assms by (simp add: SynErf_compute_def norm_erf_def Let_def)

lemma erf_2_pos: "0 < erf 2"
  using erf_strict_mono [of 0 2] by (simp add: erf_0)

text \<open>
  C3, the statement of the specification fails for a transmission device. With width 1
  and \<open>Imax = 1\<close>, \<open>sign * (- distance)\<close> is \<open>-1\<close> at distance 1 and \<open>0\<close> at distance 0, yet
  the value at distance 1 is the larger one: the value is not non-decreasing in
  \<open>sign * (- distance)\<close>.
\<close>

theorem SynErf_transmission_direction_counterexample:
  "(case SynErf_init (\<lambda>w::unit. (Inr 0, w)) 1 NoiseNone (1 / 10) (1 / 10) None True
           \<lparr>world = (), np_random = canned []\<rparr> \<lparr>statuses = [], threads = []\<rparr> of
      (Inl err, e, k) \<Rightarrow> False
    | (Inr d, e, k) \<Rightarrow>
        sign d * (- 1) \<le> sign d * (- 0) \<and>
        fst (SynErf_compute (d\<lparr>distance_fn := \<lambda>w. (Inr 1, w)\<rparr>, e)) =
          Inr (1 / 2 * (erf 2 + 1)) \<and>
        fst (SynErf_compute (d\<lparr>distance_fn := \<lambda>w. (Inr 0, w)\<rparr>, e)) = Inr (1 / 2) \<and>
        1 / 2 < 1 / 2 * (erf 2 + 1))"
  using erf_2_pos
  by (simp add: SynErf_init_def SynErf_compute_def norm_erf_def erf_0 Let_def)

text \<open>
  C3, as the code has it. For width \<open>> 0\<close> and \<open>Imax \<ge> 0\<close> the noiseless value is
  \<open>Imax * (1/2) * (erf (2 * sign * distance / width) + 1)\<close> and is non-increasing in
  \<open>sign * (- distance)\<close> for either sign: it is non-decreasing in the distance for a
  transmission device (\<open>sign = 1\<close>) and non-increasing in the distance for a reflection
  device (\<open>sign = -1\<close>).
\<close>

theorem SynErf_noiseless_monotone:
  assumes "0 < SynErf.width d" and "0 \<le> Imax d" and "noise d = NoiseNone"
    and "sign d * (- x1) \<le> sign d * (- x2)"
  shows "fst (SynErf_compute (d\<lparr>distance_fn := \<lambda>w. (Inr x1, w)\<rparr>, e)) =
           Inr (Imax d * (1 / 2 * (erf (2 * (x1 * sign d) / SynErf.width d) + 1))) \<and>
         fst (SynErf_compute (d\<lparr>distance_fn := \<lambda>w. (Inr x2, w)\<rparr>, e)) =
           Inr (Imax d * (1 / 2 * (erf (2 * (x2 * sign d) / SynErf.width d) + 1))) \<and>
         Imax d * (1 / 2 * (erf (2 * (x2 * sign d) / SynErf.width d) + 1))
           \<le> Imax d * (1 / 2 * (erf (2 * (x1 * sign d) / SynErf.width d) + 1))"
proof -
  from assms(4) have "x2 * sign d \<le> x1 * sign d" by (simp add: mult.commute)
  then have "2 * (x2 * sign d) / SynErf.width d \<le> 2 * (x1 * sign d) / SynErf.width d"
    using assms(1) by (simp add: divide_right_mono)
  then have "erf (2 * (x2 * sign d) / SynErf.width d) \<le> erf (2 * (x1 * sign d) / SynErf.width d)"
    by (rule erf_mono)
  then have "Imax d * (1 / 2 * (erf (2 * (x2 * sign d) / SynErf.width d) + 1))
           \<le> Imax d * (1 / 2 * (erf (2 * (x1 * sign d) / SynErf.width d) + 1))"
    using assms(2) by (intro mult_left_mono) simp_all
  moreover from assms(1) have "SynErf.width d \<noteq> 0" by simp
  ultimately show ?thesis
    using assms(3) by (simp add: SynErf_compute_noiseless)
qed

text \<open>C3 at a reflection device of width 1, at the distances 0 and 1.\<close>

theorem SynErf_noiseless_monotone_witness:
  "fst (SynErf_compute
          (\<lparr>SynErf.val = SynSignal_init, Imax = 1, center = 0, width = 1,
             noise = NoiseNone, noise_multiplier = 1 / 10, noise_sigma = 1 / 10,
             distance_fn = (\<lambda>w::unit. (Inr 1, w)), sign = - 1,
             random_state = Process_wide\<rparr>,
           \<lparr>world = (), np_random = canned []\<rparr>)) = Inr (1 / 2 * (erf (- 2) + 1)) \<and>
   fst (SynErf_compute
          (\<lparr>SynErf.val = SynSignal_init, Imax = 1, center = 0, width = 1,
             noise = NoiseNone, noise_multiplier = 1 / 10, noise_sigma = 1 / 10,
             distance_fn = (\<lambda>w::unit. (Inr 0, w)), sign = - 1,
             random_state = Process_wide\<rparr>,
           \<lparr>world = (), np_random = canned []\<rparr>)) = Inr (1 / 2) \<and>
   1 / 2 * (erf (- 2) + 1) \<le> (1 / 2 :: real)"
  using SynErf_noiseless_monotone
    [where d = "\<lparr>SynErf.val = SynSignal_init, Imax = 1, center = 0, width = 1,
             noise = NoiseNone, noise_multiplier = 1 / 10, noise_sigma = 1 / 10,
             distance_fn = (\<lambda>w::unit. (Inr 0, w)), sign = - 1,
             random_state = Process_wide\<rparr>"
       and ?x1.0 = 0 and ?x2.0 = 1 and e = "\<lparr>world = (), np_random = canned []\<rparr>"]
  by (simp add: erf_0)

section \<open>The noise model\<close>



section \<open>The exposure text\<close>

























section \<open>Where the randomness comes from\<close>



section \<open>The derived device\<close>



end
